theory Spec2Isabelle
  imports Main
begin

section \<open>Values and configuration\<close>

text \<open>
  The receptor (\<^verbatim>\<open>src/receptor.py\<close>) reads attribute values out of a decoded DICOM
  dataset. The values that reach the code are text (\<^verbatim>\<open>str\<close>, and the person name that
  \<^verbatim>\<open>str()\<close> turns into text), integers (the integer string of the instance number) and
  \<^verbatim>\<open>None\<close>. A Python \<^verbatim>\<open>str\<close> is modelled by \<^typ>\<open>string\<close>: a \<^typ>\<open>char\<close> stands for a code
  point below 256.
\<close>

datatype pyval = PyNone | PyStr string | PyInt int

text \<open>Python truthiness, as \<^verbatim>\<open>if not name\<close> tests it.\<close>

fun truthy :: "pyval \<Rightarrow> bool" where
  "truthy PyNone = False"
| "truthy (PyStr s) = (s \<noteq> [])"
| "truthy (PyInt i) = (i \<noteq> 0)"

definition digit_char :: "nat \<Rightarrow> char" where
  "digit_char d = ''0123456789'' ! d"

fun str_nat :: "nat \<Rightarrow> string" where
  "str_nat n = (if n < 10 then [digit_char n] else str_nat (n div 10) @ [digit_char (n mod 10)])"

declare str_nat.simps [simp del]

text \<open>\<^verbatim>\<open>str(x)\<close>, which is also what an f-string field \<^verbatim>\<open>{x}\<close> inserts.\<close>

fun py_str :: "pyval \<Rightarrow> string" where
  "py_str PyNone = ''None''"
| "py_str (PyStr s) = s"
| "py_str (PyInt i) = (if i < 0 then CHR ''-'' # str_nat (nat (- i)) else str_nat (nat i))"

text \<open>\<^verbatim>\<open>class DICOMServerConfig\<close>: the two constants the store handler uses.\<close>

definition OUTPUT_FOLDER :: string where
  "OUTPUT_FOLDER = ''estudios_recibidos''"

definition MAX_FOLDER_LENGTH :: nat where
  "MAX_FOLDER_LENGTH = 50"

section \<open>Identifier sanitizer\<close>

text \<open>
  The character class of \<^verbatim>\<open>re.sub(r'[\\/*?:"<>|^]', "_", name)\<close>: backslash, slash, star,
  question mark, colon, double quote, angle brackets, bar and caret.
\<close>

definition problem_chars :: "char list" where
  "problem_chars = [CHR 0x5C, CHR ''/'', CHR ''*'', CHR ''?'', CHR '':'', CHR 0x22,
                    CHR ''<'', CHR ''>'', CHR ''|'', CHR ''^'']"

definition re_sub_problem :: "string \<Rightarrow> string" where
  "re_sub_problem s = map (\<lambda>c. if c \<in> set problem_chars then CHR ''_'' else c) s"

definition replace_space :: "string \<Rightarrow> string" where
  "replace_space s = map (\<lambda>c. if c = CHR '' '' then CHR ''_'' else c) s"

text \<open>
  \<^verbatim>\<open>str.strip()\<close> with no argument removes leading and trailing whitespace, that is the
  characters for which \<^verbatim>\<open>str.isspace\<close> holds: below 256 these are 0x09 to 0x0D, 0x1C to
  0x1F, the space, 0x85 and 0xA0.
\<close>

definition is_space :: "char \<Rightarrow> bool" where
  "is_space c = (let n = (of_char c :: nat) in
     (9 \<le> n \<and> n \<le> 13) \<or> (28 \<le> n \<and> n \<le> 32) \<or> n = 133 \<or> n = 160)"

definition strip :: "string \<Rightarrow> string" where
  "strip s = rev (dropWhile is_space (rev (dropWhile is_space s)))"

text \<open>
  \<^verbatim>\<open>
  def clean_filename(name):
      if not name:
          return "Sin_nombre"
      name = str(name)
      name = re.sub(r'[\\/*?:"<>|^]', "_", name)
      name = name.replace(" ", "_").strip()
      return name[:DICOMServerConfig.MAX_FOLDER_LENGTH]
  \<close>
\<close>

definition clean_filename :: "pyval \<Rightarrow> string" where
  "clean_filename name =
     (if \<not> truthy name then ''Sin_nombre''
      else take MAX_FOLDER_LENGTH (strip (replace_space (re_sub_problem (py_str name)))))"

text \<open>
  \<^verbatim>\<open>
  def shorten_uid(uid):
      return uid[-12:] if len(uid) > 12 else uid
  \<close>
  \<^verbatim>\<open>len\<close> of \<^verbatim>\<open>None\<close> or of an integer raises \<^verbatim>\<open>TypeError\<close>. An exception carries its
  message, the text \<^verbatim>\<open>str(e)\<close> gives. The exceptions modelled are those of class
  \<^verbatim>\<open>Exception\<close>, the ones an \<^verbatim>\<open>except Exception\<close> clause catches.
\<close>

datatype exn = TypeError string | OSError string | ValueError string

fun shorten_uid :: "pyval \<Rightarrow> exn + string" where
  "shorten_uid (PyStr uid) = Inr (if length uid > 12 then drop (length uid - 12) uid else uid)"
| "shorten_uid PyNone = Inl (TypeError ''object of type NoneType has no len()'')"
| "shorten_uid (PyInt i) = Inl (TypeError ''object of type int has no len()'')"

fun exn_str :: "exn \<Rightarrow> string" where
  "exn_str (TypeError m) = m"
| "exn_str (OSError m) = m"
| "exn_str (ValueError m) = m"

section \<open>Dataset access\<close>

text \<open>
  The dataset maps attribute keywords to values; \<^verbatim>\<open>ds.get(key, default)\<close> gives the default
  only when the attribute is absent. The event carries the dataset and the file meta
  information that \<^verbatim>\<open>handle_store\<close> attaches to it before saving.
\<close>

type_synonym dataset = "string \<rightharpoonup> pyval"

definition ds_get :: "dataset \<Rightarrow> string \<Rightarrow> pyval \<Rightarrow> pyval" where
  "ds_get ds key dflt = (case ds key of None \<Rightarrow> dflt | Some v \<Rightarrow> v)"

record event =
  dataset :: dataset
  file_meta :: string

text \<open>
  \<^verbatim>\<open>
  def get_patient_folder_name(ds):
      patient_id = clean_filename(ds.get("PatientID", "Sin_ID"))
      patient_name = clean_filename(ds.get("PatientName", "Sin_nombre"))
      return f"{patient_name}_{patient_id}"
  \<close>
\<close>

definition get_patient_folder_name :: "dataset \<Rightarrow> string" where
  "get_patient_folder_name ds =
     (let patient_id = clean_filename (ds_get ds ''PatientID'' (PyStr ''Sin_ID''));
          patient_name = clean_filename (ds_get ds ''PatientName'' (PyStr ''Sin_nombre''))
      in patient_name @ ''_'' @ patient_id)"

text \<open>\<^verbatim>\<open>str.zfill(width)\<close>: zeros go after a leading sign.\<close>

definition zfill :: "nat \<Rightarrow> string \<Rightarrow> string" where
  "zfill width s =
     (if width \<le> length s then s
      else (case s of
              [] \<Rightarrow> replicate width (CHR ''0'')
            | c # rest \<Rightarrow>
                if c = CHR ''+'' \<or> c = CHR ''-''
                then c # replicate (width - length s) (CHR ''0'') @ rest
                else replicate (width - length s) (CHR ''0'') @ s))"

section \<open>Paths\<close>

text \<open>
  A \<^verbatim>\<open>pathlib\<close> path on a POSIX system is a root (empty for a relative path, one slash, or
  two slashes) and a list of components. \<^verbatim>\<open>path / folder\<close> parses the string on the right:
  it is split at the slashes, empty pieces and the piece \<^verbatim>\<open>.\<close> are dropped, and what is left
  is appended; but a string that begins with a slash is absolute and replaces the path on
  the left altogether. A piece \<^verbatim>\<open>..\<close> is kept as a component.
\<close>

datatype path = Path (root: string) (parts: "string list")

text \<open>\<^verbatim>\<open>s.split('/')\<close>\<close>

fun split_sep :: "string \<Rightarrow> string list" where
  "split_sep [] = [[]]"
| "split_sep (c # cs) =
     (if c = CHR ''/'' then [] # split_sep cs
      else (case split_sep cs of [] \<Rightarrow> [[c]] | x # xs \<Rightarrow> (c # x) # xs))"

text \<open>The root of a string: exactly two leading slashes are kept as such, any other number is one.\<close>

definition splitroot :: "string \<Rightarrow> string \<times> string" where
  "splitroot s =
     (let stripped = dropWhile (\<lambda>c. c = CHR ''/'') s in
      if s \<noteq> [] \<and> hd s = CHR ''/''
      then (if length s - length stripped = 2 then (''//'', stripped) else (''/'', stripped))
      else ([], s))"

definition parse_parts :: "string \<Rightarrow> string list" where
  "parse_parts rel = filter (\<lambda>x. x \<noteq> [] \<and> x \<noteq> ''.'') (split_sep rel)"

text \<open>\<^verbatim>\<open>path / folder\<close>\<close>

definition joinpath :: "path \<Rightarrow> string \<Rightarrow> path" where
  "joinpath p s =
     (case splitroot s of
        (r, rel) \<Rightarrow> if r \<noteq> [] then Path r (parse_parts rel)
                    else Path (root p) (parts p @ parse_parts rel))"

fun join_sep :: "string list \<Rightarrow> string" where
  "join_sep [] = []"
| "join_sep [a] = a"
| "join_sep (a # b # r) = a @ ''/'' @ join_sep (b # r)"

text \<open>\<^verbatim>\<open>str(path)\<close>\<close>

definition path_str :: "path \<Rightarrow> string" where
  "path_str p = (if root p = [] \<and> parts p = [] then ''.'' else root p @ join_sep (parts p))"

text \<open>
  The paths above a path and the path itself, shortest first, the bare root apart: what
  \<^verbatim>\<open>mkdir\<close> with \<^verbatim>\<open>parents=True\<close> may have to create.
\<close>

definition ancestors :: "path \<Rightarrow> path list" where
  "ancestors p = map (\<lambda>n. Path (root p) (take n (parts p))) [1..<Suc (length (parts p))]"

section \<open>The filesystem, the log and the environment\<close>

text \<open>
  The world holds what the handler can change or observe: the directories and files on
  disk, the filesystem calls made so far, the log records, and how many identifiers
  \<^verbatim>\<open>generate_uid\<close> has handed out. Directories and files are kept by node, the place in the
  filesystem a path leads to; which node that is, the operating system decides.
\<close>

type_synonym node = "string list"

datatype content = Stored event | Partial

datatype fs_op = Mkdir path | Stat path | Write path | Unlink path

datatype level = INFO | WARNING | ERROR

record world =
  dirs :: "node set"
  files :: "node \<rightharpoonup> content"
  trace :: "fs_op list"
  logs :: "(level \<times> string) list"
  uid_count :: nat

text \<open>
  What the code does not decide is the environment's: the working directory (its
  components), the identifiers \<^verbatim>\<open>generate_uid\<close> returns, the node a path leads to once \<^verbatim>\<open>..\<close>,
  links and the like are resolved, whether a path cannot be followed at the time of the
  existence check because a directory on the way is missing, and which filesystem calls
  raise (with which exception; a failed write may leave a partial file behind).
\<close>

record env =
  cwd :: "string list"
  gen_uid :: "nat \<Rightarrow> string"
  node_of :: "path \<Rightarrow> node"
  dangling :: "path \<Rightarrow> bool"
  mkdir_fault :: "path \<Rightarrow> exn option"
  stat_fault :: "path \<Rightarrow> exn option"
  write_fault :: "path \<Rightarrow> (exn \<times> bool) option"
  unlink_fault :: "path \<Rightarrow> exn option"

definition logger :: "level \<Rightarrow> string \<Rightarrow> world \<Rightarrow> world" where
  "logger lv msg w = w\<lparr>logs := logs w @ [(lv, msg)]\<rparr>"

definition called :: "fs_op \<Rightarrow> world \<Rightarrow> world" where
  "called op w = w\<lparr>trace := trace w @ [op]\<rparr>"

definition generate_uid :: "env \<Rightarrow> world \<Rightarrow> string \<times> world" where
  "generate_uid e w = (gen_uid e (uid_count w), w\<lparr>uid_count := Suc (uid_count w)\<rparr>)"

definition is_file :: "(node \<rightharpoonup> content) \<Rightarrow> node \<Rightarrow> bool" where
  "is_file fs n = (case fs n of None \<Rightarrow> False | Some c \<Rightarrow> True)"

text \<open>
  \<^verbatim>\<open>path.mkdir(exist_ok=True, parents=True)\<close>: raises when the environment says so or when
  a file is in the way; otherwise the directory and its parents exist afterwards.
\<close>

definition mkdir_raises :: "env \<Rightarrow> (node \<rightharpoonup> content) \<Rightarrow> path \<Rightarrow> exn option" where
  "mkdir_raises e fs p =
     (case mkdir_fault e p of
        Some x \<Rightarrow> Some x
      | None \<Rightarrow> if list_ex (\<lambda>q. is_file fs (node_of e q)) (ancestors p)
                then Some (OSError ''File exists'') else None)"

definition mkdir :: "env \<Rightarrow> path \<Rightarrow> world \<Rightarrow> (exn + unit) \<times> world" where
  "mkdir e p w =
     (let w' = called (Mkdir p) w in
      case mkdir_raises e (files w) p of
        Some x \<Rightarrow> (Inl x, w')
      | None \<Rightarrow> (Inr (), w'\<lparr>dirs := dirs w' \<union> node_of e ` set (ancestors p)\<rparr>))"

text \<open>
  \<^verbatim>\<open>filepath.exists()\<close>: true when the path can be followed and leads to a file or a
  directory.
\<close>

definition found :: "env \<Rightarrow> world \<Rightarrow> path \<Rightarrow> bool" where
  "found e w p = (\<not> dangling e p \<and> (is_file (files w) (node_of e p) \<or> node_of e p \<in> dirs w))"

definition path_exists :: "env \<Rightarrow> path \<Rightarrow> world \<Rightarrow> (exn + bool) \<times> world" where
  "path_exists e p w =
     (let w' = called (Stat p) w in
      case stat_fault e p of
        Some x \<Rightarrow> (Inl x, w')
      | None \<Rightarrow> (Inr (found e w p), w'))"

text \<open>
  \<^verbatim>\<open>ds.save_as(filepath, write_like_original=True)\<close>: raises when the environment says so
  or when the path cannot be followed.
\<close>

definition write_raises :: "env \<Rightarrow> path \<Rightarrow> (exn \<times> bool) option" where
  "write_raises e p =
     (case write_fault e p of
        Some xb \<Rightarrow> Some xb
      | None \<Rightarrow> if dangling e p then Some (OSError ''No such file or directory'', False)
                else None)"

definition save_as :: "env \<Rightarrow> event \<Rightarrow> path \<Rightarrow> world \<Rightarrow> (exn + unit) \<times> world" where
  "save_as e ev p w =
     (let w' = called (Write p) w in
      case write_raises e p of
        Some (x, partial) \<Rightarrow>
          (Inl x, if partial \<and> \<not> dangling e p
                  then w'\<lparr>files := (files w')(node_of e p \<mapsto> Partial)\<rparr> else w')
      | None \<Rightarrow> (Inr (), w'\<lparr>files := (files w')(node_of e p \<mapsto> Stored ev)\<rparr>))"

text \<open>\<^verbatim>\<open>filepath.unlink(missing_ok=True)\<close>: a path that leads nowhere is not an error.\<close>

definition unlink :: "env \<Rightarrow> path \<Rightarrow> world \<Rightarrow> (exn + unit) \<times> world" where
  "unlink e p w =
     (let w' = called (Unlink p) w in
      case unlink_fault e p of
        Some x \<Rightarrow> (Inl x, w')
      | None \<Rightarrow> (Inr (), if dangling e p then w'
                          else w'\<lparr>files := (files w')(node_of e p := None)\<rparr>))"

section \<open>Location resolver\<close>

text \<open>
  \<^verbatim>\<open>
  def create_safe_path(base_folder, *subfolders):
      path = Path(base_folder)
      for folder in subfolders:
          path = path / folder
          try:
              path.mkdir(exist_ok=True, parents=True)
          except Exception as e:
              logger.error(f"No se pudo crear directorio {path}: {str(e)}")
              return None
      return path
  \<close>
\<close>

fun create_safe_path :: "env \<Rightarrow> path \<Rightarrow> string list \<Rightarrow> world \<Rightarrow> path option \<times> world" where
  "create_safe_path e path [] w = (Some path, w)"
| "create_safe_path e path (folder # subfolders) w =
     (case mkdir e (joinpath path folder) w of
        (Inl x, w') \<Rightarrow>
          (None, logger ERROR (''No se pudo crear directorio ''
                                @ path_str (joinpath path folder) @ '': '' @ exn_str x) w')
      | (Inr u, w') \<Rightarrow> create_safe_path e (joinpath path folder) subfolders w')"

text \<open>
  The names \<^verbatim>\<open>handle_store\<close> derives from the dataset (lines 99 to 109, and the f-strings
  of lines 116, 117 and 125), in the order the code evaluates them: each
  \<^verbatim>\<open>generate_uid()\<close> is an argument of \<^verbatim>\<open>ds.get\<close>, so it runs whether or not the attribute is
  present.
  \<^verbatim>\<open>
  patient_folder = get_patient_folder_name(ds)
  study_uid = shorten_uid(ds.get('StudyInstanceUID', generate_uid()))
  series_uid = shorten_uid(ds.get('SeriesInstanceUID', generate_uid()))
  sop_instance_uid = shorten_uid(ds.get('SOPInstanceUID', generate_uid()))
  modality = ds.get("Modality", "XX")
  instance_number = str(ds.get("InstanceNumber", "0")).zfill(4)
  study_date = ds.get("StudyDate", "")
  ... f"{study_date}_E{study_uid}", f"{modality}_S{series_uid}"
  filename = f"{modality}_{instance_number}_{sop_instance_uid}.dcm"
  \<close>
\<close>

record location =
  patient_folder :: string
  study_folder :: string
  series_folder :: string
  filename :: string

definition storage_location :: "env \<Rightarrow> dataset \<Rightarrow> world \<Rightarrow> (exn + location) \<times> world" where
  "storage_location e ds w0 =
     (let patient = get_patient_folder_name ds;
          (g1, w1) = generate_uid e w0
      in case shorten_uid (ds_get ds ''StudyInstanceUID'' (PyStr g1)) of
           Inl x \<Rightarrow> (Inl x, w1)
         | Inr study_uid \<Rightarrow>
       (let (g2, w2) = generate_uid e w1
        in case shorten_uid (ds_get ds ''SeriesInstanceUID'' (PyStr g2)) of
             Inl x \<Rightarrow> (Inl x, w2)
           | Inr series_uid \<Rightarrow>
         (let (g3, w3) = generate_uid e w2
          in case shorten_uid (ds_get ds ''SOPInstanceUID'' (PyStr g3)) of
               Inl x \<Rightarrow> (Inl x, w3)
             | Inr sop_instance_uid \<Rightarrow>
           (let modality = py_str (ds_get ds ''Modality'' (PyStr ''XX''));
                instance_number = zfill 4 (py_str (ds_get ds ''InstanceNumber'' (PyStr ''0'')));
                study_date = py_str (ds_get ds ''StudyDate'' (PyStr []))
            in (Inr \<lparr>patient_folder = patient,
                     study_folder = study_date @ ''_E'' @ study_uid,
                     series_folder = modality @ ''_S'' @ series_uid,
                     filename = modality @ ''_'' @ instance_number @ ''_''
                                @ sop_instance_uid @ ''.dcm''\<rparr>, w3)))))"

section \<open>Store transaction handler\<close>

text \<open>
  The body of the outer \<^verbatim>\<open>try\<close> of \<^verbatim>\<open>handle_store\<close>: an exception that is not caught inside
  is the \<open>Inl\<close> result.
  \<^verbatim>\<open>
  base_path = Path(DICOMServerConfig.OUTPUT_FOLDER).absolute()
  safe_path = create_safe_path(base_path, patient_folder, ..., ...)
  if not safe_path:
      logger.error("No se pudo crear la estructura de directorios")
      return 0xC001
  filepath = safe_path / filename
  if filepath.exists():
      logger.warning(f"Archivo ya existe: {filepath}")
      return 0x0000
  try:
      ds.save_as(filepath, write_like_original=True)
      logger.info(f"Archivo DICOM guardado: {filepath}")
      return 0x0000
  except Exception as save_error:
      logger.error(f"Error al guardar {filepath}: {str(save_error)}")
      try:
          filepath.unlink(missing_ok=True)
      except:
          pass
      return 0xC002
  \<close>
\<close>

definition base_path :: "env \<Rightarrow> path" where
  "base_path e = joinpath (Path ''/'' (cwd e)) OUTPUT_FOLDER"

definition handle_store_body :: "env \<Rightarrow> event \<Rightarrow> world \<Rightarrow> (exn + nat) \<times> world" where
  "handle_store_body e ev w0 =
     (case storage_location e (dataset ev) w0 of
        (Inl x, w1) \<Rightarrow> (Inl x, w1)
      | (Inr loc, w1) \<Rightarrow>
     (case create_safe_path e (base_path e)
             [patient_folder loc, study_folder loc, series_folder loc] w1 of
        (None, w2) \<Rightarrow>
          (Inr 0xC001, logger ERROR ''No se pudo crear la estructura de directorios'' w2)
      | (Some safe_path, w2) \<Rightarrow>
     (let filepath = joinpath safe_path (filename loc) in
      case path_exists e filepath w2 of
        (Inl x, w3) \<Rightarrow> (Inl x, w3)
      | (Inr True, w3) \<Rightarrow>
          (Inr 0x0000, logger WARNING (''Archivo ya existe: '' @ path_str filepath) w3)
      | (Inr False, w3) \<Rightarrow>
     (case save_as e ev filepath w3 of
        (Inr u, w4) \<Rightarrow>
          (Inr 0x0000, logger INFO (''Archivo DICOM guardado: '' @ path_str filepath) w4)
      | (Inl save_error, w4) \<Rightarrow>
          (let w5 = logger ERROR (''Error al guardar '' @ path_str filepath @ '': ''
                                  @ exn_str save_error) w4;
               (r, w6) = unlink e filepath w5
           in (Inr 0xC002, w6))))))"

text \<open>
  \<^verbatim>\<open>
  def handle_store(event):
      try:
          ...
      except Exception as e:
          logger.error(f"Error en handle_store: {str(e)}", exc_info=True)
          return 0xC003
  \<close>
\<close>

definition handle_store :: "env \<Rightarrow> event \<Rightarrow> world \<Rightarrow> nat \<times> world" where
  "handle_store e ev w =
     (case handle_store_body e ev w of
        (Inr status, w') \<Rightarrow> (status, w')
      | (Inl x, w') \<Rightarrow> (0xC003, logger ERROR (''Error en handle_store: '' @ exn_str x) w'))"

text \<open>The directory levels \<^verbatim>\<open>create_safe_path\<close> visits, in order.\<close>

fun level_paths :: "path \<Rightarrow> string list \<Rightarrow> path list" where
  "level_paths p [] = []"
| "level_paths p (f # fs) = joinpath p f # level_paths (joinpath p f) fs"

text \<open>The nodes that are directories once the given levels have been created.\<close>

definition made :: "env \<Rightarrow> path list \<Rightarrow> node set" where
  "made e ps = (\<Union>q\<in>set ps. node_of e ` set (ancestors q))"

text \<open>
  The three directory levels and the file path \<^verbatim>\<open>safe_path / filename\<close> that
  \<^verbatim>\<open>handle_store\<close> builds from the derived names.
\<close>

definition subfolders_of :: "location \<Rightarrow> string list" where
  "subfolders_of loc = [patient_folder loc, study_folder loc, series_folder loc]"

definition levels :: "env \<Rightarrow> location \<Rightarrow> path list" where
  "levels e loc = level_paths (base_path e) (subfolders_of loc)"

definition target :: "env \<Rightarrow> location \<Rightarrow> path" where
  "target e loc = joinpath (foldl joinpath (base_path e) (subfolders_of loc)) (filename loc)"

definition uids_present :: "dataset \<Rightarrow> bool" where
  "uids_present ds =
     (ds ''StudyInstanceUID'' \<noteq> None \<and> ds ''SeriesInstanceUID'' \<noteq> None
      \<and> ds ''SOPInstanceUID'' \<noteq> None)"

text \<open>
  The world once \<^verbatim>\<open>handle_store\<close> has derived the names, created the three levels and
  asked whether the target exists.
\<close>

definition ensured :: "env \<Rightarrow> location \<Rightarrow> world \<Rightarrow> world" where
  "ensured e loc w = w\<lparr>uid_count := uid_count w + 3,
      trace := trace w @ map Mkdir (levels e loc) @ [Stat (target e loc)],
      dirs := dirs w \<union> made e (levels e loc)\<rparr>"

section \<open>Sample inputs\<close>

text \<open>
  How a filesystem without links resolves a path: \<^verbatim>\<open>..\<close> steps back to the directory above.
\<close>

definition canon :: "path \<Rightarrow> node" where
  "canon p = foldl (\<lambda>cur c. if c = ''..'' then butlast cur else cur @ [c]) [] (parts p)"

text \<open>
  An environment in which no filesystem call fails, every path can be followed, and
  \<^verbatim>\<open>generate_uid\<close> hands out identifiers under the pydicom root that differ from call to
  call; an empty disk; and the instance of the end-to-end scenario (patient P1, John Doe, a
  CT image, instance 3).
\<close>

definition env0 :: env where
  "env0 = \<lparr>cwd = [''srv''],
            gen_uid = (\<lambda>n. ''1.2.826.0.1.3680043.8.498.'' @ str_nat (1000 + n)),
            node_of = canon, dangling = (\<lambda>p. False),
            mkdir_fault = (\<lambda>p. None), stat_fault = (\<lambda>p. None),
            write_fault = (\<lambda>p. None), unlink_fault = (\<lambda>p. None)\<rparr>"

definition w0 :: world where
  "w0 = \<lparr>dirs = {}, files = Map.empty, trace = [], logs = [], uid_count = 0\<rparr>"

definition dsA :: dataset where
  "dsA = [''PatientID'' \<mapsto> PyStr ''P1'', ''PatientName'' \<mapsto> PyStr ''John Doe'',
          ''StudyInstanceUID'' \<mapsto> PyStr ''1.2.840.113619.2.55.3.999999999999'',
          ''SeriesInstanceUID'' \<mapsto> PyStr ''1.2.840.113619.2.55.3.1'',
          ''SOPInstanceUID'' \<mapsto> PyStr ''1.2.3'',
          ''Modality'' \<mapsto> PyStr ''CT'', ''InstanceNumber'' \<mapsto> PyInt 3,
          ''StudyDate'' \<mapsto> PyStr ''20240101'']"

definition evA :: event where
  "evA = \<lparr>dataset = dsA, file_meta = ''meta''\<rparr>"

definition locA :: location where
  "locA = \<lparr>patient_folder = ''John_Doe_P1'', study_folder = ''20240101_E999999999999'',
            series_folder = ''CT_S619.2.55.3.1'', filename = ''CT_0003_1.2.3.dcm''\<rparr>"

text \<open>The same instance with a study identifier that holds \<^verbatim>\<open>None\<close>.\<close>

definition evNone :: event where
  "evNone = \<lparr>dataset = dsA(''StudyInstanceUID'' \<mapsto> PyNone), file_meta = ''meta''\<rparr>"

text \<open>The directory levels and the file of the sample instance.\<close>

definition patientA :: path where
  "patientA = Path ''/'' [''srv'', ''estudios_recibidos'', ''John_Doe_P1'']"

definition studyA :: path where
  "studyA = Path ''/'' [''srv'', ''estudios_recibidos'', ''John_Doe_P1'',
                        ''20240101_E999999999999'']"

definition seriesA :: path where
  "seriesA = Path ''/'' [''srv'', ''estudios_recibidos'', ''John_Doe_P1'',
                         ''20240101_E999999999999'', ''CT_S619.2.55.3.1'']"

definition targetA :: path where
  "targetA = Path ''/'' [''srv'', ''estudios_recibidos'', ''John_Doe_P1'',
                         ''20240101_E999999999999'', ''CT_S619.2.55.3.1'', ''CT_0003_1.2.3.dcm'']"

text \<open>
  Environments in which one call fails: creating the study directory; writing the file
  (leaving a partial file, which can then not be deleted either).
\<close>

definition env_mkdir :: env where
  "env_mkdir = env0\<lparr>mkdir_fault :=
     (\<lambda>p. if p = studyA then Some (OSError ''Permission denied'') else None)\<rparr>"

definition env_write :: env where
  "env_write = env0\<lparr>write_fault := (\<lambda>p. Some (OSError ''No space left on device'', True)),
                    unlink_fault := (\<lambda>p. Some (OSError ''Permission denied''))\<rparr>"

text \<open>The sample instance without a study identifier, and without a SOP identifier.\<close>

definition ds_no_study :: dataset where
  "ds_no_study = dsA(''StudyInstanceUID'' := None)"

definition ev_no_sop :: event where
  "ev_no_sop = \<lparr>dataset = dsA(''SOPInstanceUID'' := None), file_meta = ''meta''\<rparr>"

text \<open>The world after the sample environment has handled an event once, and twice.\<close>

definition once :: "event \<Rightarrow> world" where
  "once ev = snd (handle_store env0 ev w0)"

definition twice :: "event \<Rightarrow> world" where
  "twice ev = snd (handle_store env0 ev (once ev))"

text \<open>
  A dataset without any of the three identifiers, and the sample instance with the three
  identifiers present but empty.
\<close>

definition ds_no_uids :: dataset where
  "ds_no_uids = [''PatientID'' \<mapsto> PyStr ''P1'', ''Modality'' \<mapsto> PyStr ''CT'']"

definition loc_no_uids :: location where
  "loc_no_uids = \<lparr>patient_folder = ''Sin_nombre_P1'', study_folder = ''_E3.8.498.1000'',
                  series_folder = ''CT_S3.8.498.1001'', filename = ''CT_0000_3.8.498.1002.dcm''\<rparr>"

definition ds_empty_uids :: dataset where
  "ds_empty_uids = dsA(''StudyInstanceUID'' \<mapsto> PyStr [], ''SeriesInstanceUID'' \<mapsto> PyStr [],
                       ''SOPInstanceUID'' \<mapsto> PyStr [])"

definition loc_empty_uids :: location where
  "loc_empty_uids = \<lparr>patient_folder = ''John_Doe_P1'', study_folder = ''20240101_E'',
                     series_folder = ''CT_S'', filename = ''CT_0003_.dcm''\<rparr>"




section \<open>Properties of the sanitizer\<close>

lemma set_dropWhile_subset: "set (dropWhile P xs) \<subseteq> set xs"
  by (auto dest: set_dropWhileD)

lemma set_strip_subset: "set (strip s) \<subseteq> set s"
proof -
  have "set (strip s) \<subseteq> set (dropWhile is_space s)"
    using set_dropWhile_subset [of is_space "rev (dropWhile is_space s)"]
    by (simp add: strip_def)
  also have "\<dots> \<subseteq> set s"
    by (rule set_dropWhile_subset)
  finally show ?thesis .
qed

lemma clean_filename_length: "length (clean_filename v) \<le> MAX_FOLDER_LENGTH"
  by (simp add: clean_filename_def MAX_FOLDER_LENGTH_def)

lemma clean_filename_fallback: "\<not> truthy v \<Longrightarrow> clean_filename v = ''Sin_nombre''"
  by (simp add: clean_filename_def)

lemma problem_free: "c \<in> set (replace_space (re_sub_problem s)) \<Longrightarrow> c \<notin> set problem_chars \<and> c \<noteq> CHR '' ''"
  by (auto simp: replace_space_def re_sub_problem_def problem_chars_def split: if_splits)

lemma set_clean_filename: "truthy v \<Longrightarrow> set (clean_filename v) \<subseteq> set (replace_space (re_sub_problem (py_str v)))"
  unfolding clean_filename_def using set_strip_subset set_take_subset by fastforce

lemma replace_both:
  "replace_space (re_sub_problem s)
     = map (\<lambda>c. if c \<in> set problem_chars \<union> {CHR '' ''} then CHR ''_'' else c) s"
  by (auto simp: replace_space_def re_sub_problem_def problem_chars_def)

lemma strip_id:
  assumes "xs = [] \<or> (\<not> is_space (hd xs) \<and> \<not> is_space (last xs))"
  shows "strip xs = xs"
proof (cases "xs = []")
  case True
  then show ?thesis by (simp add: strip_def)
next
  case False
  with assms have h: "\<not> is_space (hd xs)" and l: "\<not> is_space (last xs)"
    by simp_all
  have 1: "dropWhile is_space xs = xs"
    using False h by (cases xs) simp_all
  have "rev xs \<noteq> []" "\<not> is_space (hd (rev xs))"
    using False l by (simp_all add: hd_rev)
  then have 2: "dropWhile is_space (rev xs) = rev xs"
    by (cases "rev xs") simp_all
  show ?thesis
    by (simp add: strip_def 1 2)
qed

lemma str_nat_nonempty: "str_nat n \<noteq> []"
  by (subst str_nat.simps) simp

lemma truthy_py_str_nonempty: "truthy v \<Longrightarrow> py_str v \<noteq> []"
  by (cases v) (simp_all add: str_nat_nonempty)

lemma not_space_underscore: "\<not> is_space (CHR ''_'')"
  by (simp add: is_space_def)

section \<open>Properties of the paths\<close>






section \<open>Properties of the resolver and the handler\<close>

lemma storage_location_snd:
  "storage_location e ds w = (r, w') \<Longrightarrow>
     dirs w' = dirs w \<and> files w' = files w \<and> trace w' = trace w \<and> logs w' = logs w"
  by (auto simp: storage_location_def generate_uid_def Let_def split: sum.splits)

lemma storage_location_Inr:
  "storage_location e ds w = (Inr loc, w') \<Longrightarrow> w' = w\<lparr>uid_count := uid_count w + 3\<rparr>"
  by (auto simp: storage_location_def generate_uid_def Let_def split: sum.splits)

lemma mkdir_ok:
  "mkdir_raises e (files w) p = None \<Longrightarrow>
     mkdir e p w = (Inr (), w\<lparr>trace := trace w @ [Mkdir p],
                              dirs := dirs w \<union> node_of e ` set (ancestors p)\<rparr>)"
  by (simp add: mkdir_def called_def)

lemma mkdir_raise:
  "mkdir_raises e (files w) p = Some x \<Longrightarrow>
     mkdir e p w = (Inl x, w\<lparr>trace := trace w @ [Mkdir p]\<rparr>)"
  by (simp add: mkdir_def called_def)

lemma made_Nil: "made e [] = {}"
  by (simp add: made_def)

lemma made_Cons: "made e (q # qs) = node_of e ` set (ancestors q) \<union> made e qs"
  by (simp add: made_def)

lemma create_safe_path_ok:
  "\<forall>q\<in>set (level_paths p subs). mkdir_raises e (files w) q = None \<Longrightarrow>
     create_safe_path e p subs w =
       (Some (foldl joinpath p subs),
        w\<lparr>trace := trace w @ map Mkdir (level_paths p subs),
          dirs := dirs w \<union> made e (level_paths p subs)\<rparr>)"
proof (induction subs arbitrary: p w)
  case Nil
  show ?case by (simp add: made_Nil)
next
  case (Cons f fs)
  have here: "mkdir_raises e (files w) (joinpath p f) = None"
    using Cons.prems by simp
  let ?w = "w\<lparr>trace := trace w @ [Mkdir (joinpath p f)],
              dirs := dirs w \<union> node_of e ` set (ancestors (joinpath p f))\<rparr>"
  have rest: "\<forall>q\<in>set (level_paths (joinpath p f) fs). mkdir_raises e (files ?w) q = None"
    using Cons.prems by simp
  show ?case
    by (simp add: mkdir_ok [OF here] Cons.IH [OF rest] made_Cons Un_assoc)
qed

lemma create_safe_path_fail:
  "\<forall>q\<in>set (level_paths p pre). mkdir_raises e (files w) q = None \<Longrightarrow>
   mkdir_raises e (files w) (joinpath (foldl joinpath p pre) f) = Some x \<Longrightarrow>
     create_safe_path e p (pre @ f # post) w =
       (None,
        logger ERROR (''No se pudo crear directorio ''
                      @ path_str (joinpath (foldl joinpath p pre) f) @ '': '' @ exn_str x)
          (w\<lparr>trace := trace w @ map Mkdir (level_paths p (pre @ [f])),
            dirs := dirs w \<union> made e (level_paths p pre)\<rparr>))"
proof (induction pre arbitrary: p w)
  case Nil
  then show ?case by (simp add: mkdir_raise made_Nil)
next
  case (Cons g gs)
  have here: "mkdir_raises e (files w) (joinpath p g) = None"
    using Cons.prems by simp
  let ?w = "w\<lparr>trace := trace w @ [Mkdir (joinpath p g)],
              dirs := dirs w \<union> node_of e ` set (ancestors (joinpath p g))\<rparr>"
  have rest: "\<forall>q\<in>set (level_paths (joinpath p g) gs). mkdir_raises e (files ?w) q = None"
    using Cons.prems by simp
  have bad: "mkdir_raises e (files ?w) (joinpath (foldl joinpath (joinpath p g) gs) f) = Some x"
    using Cons.prems by simp
  show ?case
    using Cons.IH [OF rest bad]
    by (simp add: mkdir_ok [OF here] made_Cons Un_assoc)
qed

lemma handle_store_dir_fail:
  assumes loc: "storage_location e (dataset ev) w = (Inr loc, w1)"
    and split: "subfolders_of loc = pre @ f # post"
    and ok: "\<forall>q\<in>set (level_paths (base_path e) pre). mkdir_raises e (files w) q = None"
    and bad: "mkdir_raises e (files w) (joinpath (foldl joinpath (base_path e) pre) f) = Some x"
  shows "handle_store e ev w =
     (0xC001,
      logger ERROR ''No se pudo crear la estructura de directorios''
       (logger ERROR (''No se pudo crear directorio ''
                      @ path_str (joinpath (foldl joinpath (base_path e) pre) f)
                      @ '': '' @ exn_str x)
         (w\<lparr>uid_count := uid_count w + 3,
            trace := trace w @ map Mkdir (level_paths (base_path e) (pre @ [f])),
            dirs := dirs w \<union> made e (level_paths (base_path e) pre)\<rparr>)))"
proof -
  have w1: "w1 = w\<lparr>uid_count := uid_count w + 3\<rparr>"
    using storage_location_Inr [OF loc] .
  have ok1: "\<forall>q\<in>set (level_paths (base_path e) pre). mkdir_raises e (files w1) q = None"
    using ok by (simp add: w1)
  have bad1: "mkdir_raises e (files w1) (joinpath (foldl joinpath (base_path e) pre) f) = Some x"
    using bad by (simp add: w1)
  have csp: "create_safe_path e (base_path e)
       [patient_folder loc, study_folder loc, series_folder loc] w1
     = (None, logger ERROR (''No se pudo crear directorio ''
                      @ path_str (joinpath (foldl joinpath (base_path e) pre) f)
                      @ '': '' @ exn_str x)
          (w1\<lparr>trace := trace w1 @ map Mkdir (level_paths (base_path e) (pre @ [f])),
            dirs := dirs w1 \<union> made e (level_paths (base_path e) pre)\<rparr>))"
    using create_safe_path_fail [OF ok1 bad1, of post] split by (simp add: subfolders_of_def)
  show ?thesis
    unfolding handle_store_def handle_store_body_def
    by (simp add: loc csp del: create_safe_path.simps) (simp add: w1)
qed

lemma handle_store_checked:
  assumes loc: "storage_location e (dataset ev) w = (Inr loc, w1)"
    and ok: "\<forall>q\<in>set (levels e loc). mkdir_raises e (files w) q = None"
    and stat: "stat_fault e (target e loc) = None"
  shows "handle_store e ev w =
     (if found e (ensured e loc w) (target e loc)
      then (0x0000, logger WARNING (''Archivo ya existe: '' @ path_str (target e loc))
                      (ensured e loc w))
      else (case save_as e ev (target e loc) (ensured e loc w) of
              (Inr u, w4) \<Rightarrow>
                (0x0000, logger INFO (''Archivo DICOM guardado: '' @ path_str (target e loc)) w4)
            | (Inl save_error, w4) \<Rightarrow>
                (0xC002, snd (unlink e (target e loc)
                   (logger ERROR (''Error al guardar '' @ path_str (target e loc) @ '': ''
                                  @ exn_str save_error) w4)))))"
proof -
  have w1: "w1 = w\<lparr>uid_count := uid_count w + 3\<rparr>"
    using storage_location_Inr [OF loc] .
  have ok1: "\<forall>q\<in>set (level_paths (base_path e) (subfolders_of loc)).
               mkdir_raises e (files w1) q = None"
    using ok by (simp add: w1 levels_def)
  have csp: "create_safe_path e (base_path e)
       [patient_folder loc, study_folder loc, series_folder loc] w1
     = (Some (foldl joinpath (base_path e) (subfolders_of loc)),
        w1\<lparr>trace := trace w1 @ map Mkdir (levels e loc),
           dirs := dirs w1 \<union> made e (levels e loc)\<rparr>)"
    using create_safe_path_ok [OF ok1] by (simp add: subfolders_of_def levels_def)
  have tgt: "joinpath (foldl joinpath (base_path e) (subfolders_of loc)) (filename loc)
             = target e loc"
    by (simp add: target_def)
  have ex: "path_exists e (target e loc)
       (w1\<lparr>trace := trace w1 @ map Mkdir (levels e loc),
          dirs := dirs w1 \<union> made e (levels e loc)\<rparr>)
     = (Inr (found e (ensured e loc w) (target e loc)), ensured e loc w)"
    by (simp add: path_exists_def stat called_def ensured_def w1 found_def)
  show ?thesis
    unfolding handle_store_def handle_store_body_def
    by (simp add: loc csp tgt ex Let_def bool.case_eq_if split_beta split: sum.split
        del: create_safe_path.simps)
qed

lemma is_file_upd: "is_file (fs(n \<mapsto> c)) m = (m = n \<or> is_file fs m)"
  by (simp add: is_file_def)

lemma not_is_file_None: "\<not> is_file fs n \<Longrightarrow> fs n = None"
  by (simp add: is_file_def split: option.splits)

lemma mkdir_raises_upd:
  assumes "n \<notin> node_of e ` set (ancestors q)"
  shows "mkdir_raises e (fs(n \<mapsto> c)) q = mkdir_raises e fs q"
proof -
  have "list_ex (\<lambda>q'. is_file (fs(n \<mapsto> c)) (node_of e q')) (ancestors q)
        = list_ex (\<lambda>q'. is_file fs (node_of e q')) (ancestors q)"
    using assms by (auto simp: list_ex_iff is_file_upd)
  then show ?thesis by (simp add: mkdir_raises_def)
qed

lemma mkdir_raises_empty: "mkdir_fault e p = None \<Longrightarrow> mkdir_raises e Map.empty p = None"
  by (simp add: mkdir_raises_def list_ex_iff is_file_def)

lemma levels_ok_after_write:
  assumes ok: "\<forall>q\<in>set ps. mkdir_raises e fs q = None"
    and fresh: "n \<notin> made e ps"
  shows "\<forall>q\<in>set ps. mkdir_raises e (fs(n \<mapsto> c)) q = None"
proof
  fix q assume q: "q \<in> set ps"
  then have "n \<notin> node_of e ` set (ancestors q)"
    using fresh by (auto simp: made_def)
  then show "mkdir_raises e (fs(n \<mapsto> c)) q = None"
    using ok q by (simp add: mkdir_raises_upd)
qed

lemma write_raises_None: "write_raises e p = None \<Longrightarrow> \<not> dangling e p"
  by (auto simp: write_raises_def split: option.splits if_splits)

lemma handle_store_written:
  assumes loc: "storage_location e (dataset ev) w = (Inr loc, w1)"
    and ok: "\<forall>q\<in>set (levels e loc). mkdir_raises e (files w) q = None"
    and stat: "stat_fault e (target e loc) = None"
    and absent: "\<not> found e (ensured e loc w) (target e loc)"
    and wf: "write_raises e (target e loc) = None"
  shows "handle_store e ev w =
     (0x0000, logger INFO (''Archivo DICOM guardado: '' @ path_str (target e loc))
        ((ensured e loc w)\<lparr>trace := trace (ensured e loc w) @ [Write (target e loc)],
                            files := (files w)(node_of e (target e loc) \<mapsto> Stored ev)\<rparr>))"
  using absent
  by (simp add: handle_store_checked [OF loc ok stat] save_as_def wf called_def ensured_def Let_def)

lemma handle_store_duplicate:
  assumes loc: "storage_location e (dataset ev) w = (Inr loc, w1)"
    and ok: "\<forall>q\<in>set (levels e loc). mkdir_raises e (files w) q = None"
    and stat: "stat_fault e (target e loc) = None"
    and there: "found e (ensured e loc w) (target e loc)"
  shows "handle_store e ev w =
     (0x0000, logger WARNING (''Archivo ya existe: '' @ path_str (target e loc)) (ensured e loc w))"
  using there by (simp add: handle_store_checked [OF loc ok stat])

lemma storage_location_uids_present:
  "uids_present ds \<Longrightarrow> fst (storage_location e ds w) = fst (storage_location e' ds w')"
  by (auto simp: uids_present_def storage_location_def generate_uid_def ds_get_def Let_def
      split: sum.splits)

lemma fst_eq_pair: "fst p = a \<Longrightarrow> p = (a, snd p)"
  by (cases p) simp


section \<open>Evaluating the sample inputs\<close>

lemma sample_simps:
  "cwd env0 = [''srv'']" "mkdir_fault env0 = (\<lambda>p. None)" "stat_fault env0 = (\<lambda>p. None)"
  "write_fault env0 = (\<lambda>p. None)" "unlink_fault env0 = (\<lambda>p. None)"
  "dangling env0 = (\<lambda>p. False)" "node_of env0 = canon"
  "gen_uid env0 n = ''1.2.826.0.1.3680043.8.498.'' @ str_nat (1000 + n)"
  by (simp_all add: env0_def)

lemma w0_simps:
  "dirs w0 = {}" "files w0 = Map.empty" "trace w0 = []" "logs w0 = []" "uid_count w0 = 0"
  by (simp_all add: w0_def)

lemmas clean_defs = clean_filename_def re_sub_problem_def replace_space_def strip_def
  is_space_def problem_chars_def MAX_FOLDER_LENGTH_def

lemma locA_ok: "storage_location e dsA w = (Inr locA, w\<lparr>uid_count := uid_count w + 3\<rparr>)"
  by (simp add: storage_location_def generate_uid_def dsA_def ds_get_def locA_def
      get_patient_folder_name_def clean_defs zfill_def str_nat.simps digit_char_def
      eval_nat_numeral)

lemma locA_evA:
  "storage_location e (dataset evA) w0 = (Inr locA, w0\<lparr>uid_count := uid_count w0 + 3\<rparr>)"
  by (simp add: evA_def locA_ok)

lemma body_None:
  "handle_store_body env0 evNone w0 =
     (Inl (TypeError ''object of type NoneType has no len()''), w0\<lparr>uid_count := 1\<rparr>)"
  by (simp add: handle_store_body_def evNone_def storage_location_def generate_uid_def
      ds_get_def dsA_def w0_def)

lemma base_srv: "cwd e = [''srv''] \<Longrightarrow> base_path e = Path ''/'' [''srv'', ''estudios_recibidos'']"
  by (simp add: base_path_def joinpath_def splitroot_def parse_parts_def OUTPUT_FOLDER_def)

lemma levelsA: "level_paths (Path ''/'' [''srv'', ''estudios_recibidos'']) (subfolders_of locA)
                = [patientA, studyA, seriesA]"
  by code_simp

lemma targetA_join:
  "joinpath (foldl joinpath (Path ''/'' [''srv'', ''estudios_recibidos'']) (subfolders_of locA))
     (filename locA) = targetA"
  by code_simp

lemma levelsA_eq: "cwd e = [''srv''] \<Longrightarrow> levels e locA = [patientA, studyA, seriesA]"
  by (simp add: levels_def base_srv levelsA)

lemma targetA_eq: "cwd e = [''srv''] \<Longrightarrow> target e locA = targetA"
  by (simp add: target_def base_srv targetA_join)

lemma canon_targetA: "canon targetA = parts targetA"
  by code_simp

lemma env0_ok: "\<forall>q\<in>set ps. mkdir_raises env0 Map.empty q = None"
  by (simp add: mkdir_raises_empty env0_def)

lemma gen_env0_nonempty: "\<forall>n. gen_uid env0 n \<noteq> []"
  by (simp add: sample_simps)

lemma env_write_simps:
  "cwd env_write = [''srv'']" "mkdir_fault env_write = (\<lambda>p. None)"
  "stat_fault env_write = (\<lambda>p. None)" "dangling env_write = (\<lambda>p. False)"
  "node_of env_write = canon"
  "write_fault env_write = (\<lambda>p. Some (OSError ''No space left on device'', True))"
  "unlink_fault env_write = (\<lambda>p. Some (OSError ''Permission denied''))"
  by (simp_all add: env_write_def env0_def)

lemma env_mkdir_simps:
  "cwd env_mkdir = [''srv'']"
  "mkdir_fault env_mkdir = (\<lambda>p. if p = studyA then Some (OSError ''Permission denied'') else None)"
  by (simp_all add: env_mkdir_def env0_def)

lemma not_found_A:
  "cwd e = [''srv''] \<Longrightarrow> node_of e = canon \<Longrightarrow> \<not> found e (ensured e locA w0) (target e locA)"
proof -
  assume c: "cwd e = [''srv'']" and n: "node_of e = canon"
  have "made e [patientA, studyA, seriesA] = made env0 [patientA, studyA, seriesA]"
    by (simp add: made_def n sample_simps)
  moreover have "canon targetA \<notin> made env0 [patientA, studyA, seriesA]"
    by code_simp
  ultimately show ?thesis
    by (simp add: found_def ensured_def targetA_eq [OF c] levelsA_eq [OF c] n w0_simps is_file_def)
qed

lemma loc_no_uids_ok: "fst (storage_location env0 ds_no_uids w0) = Inr loc_no_uids"
  by code_simp

lemma loc_empty_uids_ok: "fst (storage_location env0 ds_empty_uids w0) = Inr loc_empty_uids"
  by code_simp


section \<open>The claims\<close>

text \<open>
  C1. For every instance handed to \<^verbatim>\<open>handle_store\<close>, whatever the environment does, the
  handler returns one of the four status codes 0x0000, 0xC001, 0xC002 and 0xC003, and an
  exception that escapes the body of its \<^verbatim>\<open>try\<close> is turned into 0xC003 instead of reaching
  the caller.
\<close>

theorem handle_store_always_returns_code:
  "fst (handle_store e ev w) \<in> {0x0000, 0xC001, 0xC002, 0xC003}
   \<and> (\<forall>x w'. handle_store_body e ev w = (Inl x, w') \<longrightarrow> fst (handle_store e ev w) = 0xC003)"
  unfolding handle_store_def handle_store_body_def
  by (simp add: Let_def split: prod.split sum.split option.split bool.split)

theorem handle_store_always_returns_code_witness:
  "handle_store_body env0 evNone w0 =
     (Inl (TypeError ''object of type NoneType has no len()''), w0\<lparr>uid_count := 1\<rparr>)
   \<and> fst (handle_store env0 evNone w0) = 0xC003"
  using handle_store_always_returns_code [of env0 evNone w0] body_None by blast

text \<open>
  C2, as amended. Once the names are derived, the directory levels ensured and the
  existence check answered: if the target path can be followed and a file is there, the
  handler returns 0x0000, leaves every file as it was and makes no write or delete call.
  Consequently, for an instance that carries all three identifiers, whose existence check
  finds nothing and whose write succeeds, handling it twice gives 0x0000 both times and adds
  exactly one file, the one the first call wrote.
\<close>

theorem duplicate_is_noop:
  assumes loc: "storage_location e (dataset ev) w = (Inr loc, w1)"
    and ok: "\<forall>q\<in>set (levels e loc). mkdir_raises e (files w) q = None"
    and stat: "stat_fault e (target e loc) = None"
  shows "(\<not> dangling e (target e loc) \<and> is_file (files w) (node_of e (target e loc)) \<longrightarrow>
            fst (handle_store e ev w) = 0x0000
          \<and> files (snd (handle_store e ev w)) = files w
          \<and> trace (snd (handle_store e ev w)) =
              trace w @ map Mkdir (levels e loc) @ [Stat (target e loc)])
       \<and> (uids_present (dataset ev) \<and> \<not> found e (ensured e loc w) (target e loc)
          \<and> write_raises e (target e loc) = None \<longrightarrow>
            fst (handle_store e ev w) = 0x0000
          \<and> fst (handle_store e ev (snd (handle_store e ev w))) = 0x0000
          \<and> files (snd (handle_store e ev w)) =
              (files w)(node_of e (target e loc) \<mapsto> Stored ev)
          \<and> files (snd (handle_store e ev (snd (handle_store e ev w)))) =
              (files w)(node_of e (target e loc) \<mapsto> Stored ev)
          \<and> dom (files (snd (handle_store e ev (snd (handle_store e ev w))))) =
              insert (node_of e (target e loc)) (dom (files w)))"
proof (intro conjI impI)
  assume "\<not> dangling e (target e loc) \<and> is_file (files w) (node_of e (target e loc))"
  then have there: "found e (ensured e loc w) (target e loc)"
    by (simp add: found_def ensured_def)
  note dup = handle_store_duplicate [OF loc ok stat there]
  show "fst (handle_store e ev w) = 0x0000"
    by (simp add: dup)
  show "files (snd (handle_store e ev w)) = files w"
    by (simp add: dup logger_def ensured_def)
  show "trace (snd (handle_store e ev w)) = trace w @ map Mkdir (levels e loc) @ [Stat (target e loc)]"
    by (simp add: dup logger_def ensured_def)
next
  let ?t = "target e loc" and ?n = "node_of e (target e loc)"
  assume h: "uids_present (dataset ev) \<and> \<not> found e (ensured e loc w) (target e loc)
          \<and> write_raises e (target e loc) = None"
  then have up: "uids_present (dataset ev)" and absent: "\<not> found e (ensured e loc w) ?t"
    and wf: "write_raises e ?t = None"
    by simp_all
  have nd: "\<not> dangling e ?t"
    using wf by (rule write_raises_None)
  have fresh: "?n \<notin> made e (levels e loc)"
    using absent nd by (simp add: found_def ensured_def)
  note first = handle_store_written [OF loc ok stat absent wf]
  define w' where "w' = snd (handle_store e ev w)"
  have files': "files w' = (files w)(?n \<mapsto> Stored ev)"
    by (simp add: w'_def first logger_def)
  have "fst (storage_location e (dataset ev) w') = Inr loc"
    using storage_location_uids_present [OF up, of e w' e w] loc by simp
  then have loc': "storage_location e (dataset ev) w'
                   = (Inr loc, snd (storage_location e (dataset ev) w'))"
    by (rule fst_eq_pair)
  have ok': "\<forall>q\<in>set (levels e loc). mkdir_raises e (files w') q = None"
    unfolding files' using ok fresh by (rule levels_ok_after_write)
  have there': "found e (ensured e loc w') ?t"
    using nd by (simp add: found_def ensured_def files' is_file_def)
  note second = handle_store_duplicate [OF loc' ok' stat there']
  have files'': "files (snd (handle_store e ev w')) = (files w)(?n \<mapsto> Stored ev)"
    by (simp add: second logger_def ensured_def files')
  show "fst (handle_store e ev w) = 0x0000"
    by (simp add: first)
  show "fst (handle_store e ev (snd (handle_store e ev w))) = 0x0000"
    using second by (simp add: w'_def)
  show "files (snd (handle_store e ev w)) = (files w)(?n \<mapsto> Stored ev)"
    using files' by (simp add: w'_def)
  show "files (snd (handle_store e ev (snd (handle_store e ev w)))) = (files w)(?n \<mapsto> Stored ev)"
    using files'' by (simp add: w'_def)
  show "dom (files (snd (handle_store e ev (snd (handle_store e ev w))))) = insert ?n (dom (files w))"
    using files'' by (simp add: w'_def)
qed

theorem duplicate_is_noop_witness:
  "fst (handle_store env0 evA w0) = 0x0000
   \<and> fst (handle_store env0 evA (once evA)) = 0x0000
   \<and> files (once evA) = [parts targetA \<mapsto> Stored evA]
   \<and> files (twice evA) = [parts targetA \<mapsto> Stored evA]
   \<and> trace (twice evA) = trace (once evA) @
        [Mkdir patientA, Mkdir studyA, Mkdir seriesA, Stat targetA]"
proof -
  note c = sample_simps(1)
  have ok: "\<forall>q\<in>set (levels env0 locA). mkdir_raises env0 (files w0) q = None"
    by (simp add: w0_simps env0_ok)
  have stat: "stat_fault env0 (target env0 locA) = None"
    by (simp add: sample_simps)
  have absent: "\<not> found env0 (ensured env0 locA w0) (target env0 locA)"
    by (rule not_found_A) (simp_all add: sample_simps)
  have pre: "uids_present (dataset evA) \<and> \<not> found env0 (ensured env0 locA w0) (target env0 locA)
     \<and> write_raises env0 (target env0 locA) = None"
    using absent by (simp add: uids_present_def evA_def dsA_def write_raises_def sample_simps)
  note one = duplicate_is_noop [OF locA_evA ok stat, THEN conjunct2, rule_format, OF pre]
  have files1: "files (once evA) = [parts targetA \<mapsto> Stored evA]"
    using one by (simp add: once_def targetA_eq [OF c] w0_simps sample_simps canon_targetA)
  have loc1: "storage_location env0 (dataset evA) (once evA)
     = (Inr locA, (once evA)\<lparr>uid_count := uid_count (once evA) + 3\<rparr>)"
    by (simp add: evA_def locA_ok)
  have fresh: "parts targetA \<notin> made env0 (levels env0 locA)"
    using absent
    by (simp add: found_def ensured_def targetA_eq [OF c] sample_simps canon_targetA)
  have ok1: "\<forall>q\<in>set (levels env0 locA). mkdir_raises env0 (files (once evA)) q = None"
    unfolding files1 by (rule levels_ok_after_write [OF env0_ok fresh])
  have there: "\<not> dangling env0 (target env0 locA)
               \<and> is_file (files (once evA)) (node_of env0 (target env0 locA))"
    by (simp add: files1 targetA_eq [OF c] is_file_def sample_simps canon_targetA)
  note two = duplicate_is_noop [OF loc1 ok1 stat, THEN conjunct1, rule_format, OF there]
  show ?thesis
    using one two files1
    by (simp add: once_def twice_def targetA_eq [OF c] levelsA_eq [OF c] w0_simps sample_simps
        canon_targetA)
qed

text \<open>
  The claim as stated, for every instance, fails: in the sample environment the sample
  instance without a SOP identifier, handled twice, gets 0x0000 twice and leaves two files.
\<close>

theorem same_instance_two_files:
  "dataset ev_no_sop ''SOPInstanceUID'' = None
   \<and> fst (handle_store env0 ev_no_sop w0) = 0x0000
   \<and> fst (handle_store env0 ev_no_sop (once ev_no_sop)) = 0x0000
   \<and> is_file (files (twice ev_no_sop)) (parts seriesA @ [''CT_0003_3.8.498.1002.dcm''])
   \<and> is_file (files (twice ev_no_sop)) (parts seriesA @ [''CT_0003_3.8.498.1005.dcm''])
   \<and> parts seriesA @ [''CT_0003_3.8.498.1002.dcm'']
       \<noteq> parts seriesA @ [''CT_0003_3.8.498.1005.dcm'']"
  by code_simp

text \<open>
  C3, as amended. For a dataset that carries all three identifiers, the derived patient
  folder, study folder, series folder and filename (or the exception raised while deriving
  them) are the same in every call, whatever the environment and the state of the world.
\<close>

theorem location_deterministic_when_uids_present:
  assumes "uids_present ds"
  shows "fst (storage_location e' ds w') = fst (storage_location e ds w)"
  using assms
  by (auto simp: uids_present_def storage_location_def generate_uid_def ds_get_def Let_def
      split: sum.splits)

theorem location_deterministic_when_uids_present_witness:
  "uids_present dsA
   \<and> fst (storage_location env0 dsA w0) = Inr locA
   \<and> fst (storage_location env_write dsA (snd (storage_location env0 dsA w0))) = Inr locA"
proof -
  have up: "uids_present dsA"
    by (simp add: uids_present_def dsA_def)
  have one: "fst (storage_location env0 dsA w0) = Inr locA"
    by (simp add: locA_ok)
  show ?thesis
    using up one
      location_deterministic_when_uids_present
        [OF up, of env_write "snd (storage_location env0 dsA w0)" env0 w0]
    by simp
qed

text \<open>
  The claim as stated, for every instance, fails: in the sample environment, two calls in a
  row on the sample dataset without a study identifier derive different study folders.
\<close>

theorem location_differs_without_study_uid:
  "ds_no_study ''StudyInstanceUID'' = None
   \<and> fst (storage_location env0 ds_no_study w0)
       = Inr (locA\<lparr>study_folder := ''20240101_E3.8.498.1000''\<rparr>)
   \<and> fst (storage_location env0 ds_no_study (snd (storage_location env0 ds_no_study w0)))
       = Inr (locA\<lparr>study_folder := ''20240101_E3.8.498.1003''\<rparr>)
   \<and> fst (storage_location env0 ds_no_study (snd (storage_location env0 ds_no_study w0)))
       \<noteq> fst (storage_location env0 ds_no_study w0)"
  by code_simp

text \<open>
  C4. The claim is that the sanitizer's output is at most 50 characters long and never
  empty. The bound holds (\<open>clean_filename_length\<close>), and so does the fallback for empty
  or missing input (\<open>clean_filename_fallback\<close>); but a name made of a tab is not empty,
  passes the \<^verbatim>\<open>if not name\<close> test, and is then stripped to the empty string.
\<close>

theorem clean_filename_tab_empty: "truthy (PyStr [CHR 0x09]) \<and> clean_filename (PyStr [CHR 0x09]) = []"
  by (simp add: clean_filename_def re_sub_problem_def replace_space_def strip_def is_space_def problem_chars_def MAX_FOLDER_LENGTH_def)

text \<open>
  C5. Whatever the raw name, the sanitizer's output contains none of the ten characters of
  the character class and no space. For a name that is not empty or missing, the output is
  the text of the name with each of those characters and each space replaced by an
  underscore and every other character kept, then stripped and cut to 50 characters; when
  the text neither begins nor ends with whitespace other than a space, nothing is stripped
  and the output is that replacement position by position, up to the cap. The raw patient
  name \<^verbatim>\<open>Jo:hn/Doe*\<close> becomes \<^verbatim>\<open>Jo_hn_Doe_\<close>.
\<close>

theorem clean_filename_no_problem_chars:
  "set (clean_filename v) \<inter> (set problem_chars \<union> {CHR '' ''}) = {}
   \<and> (truthy v \<longrightarrow>
        clean_filename v = take MAX_FOLDER_LENGTH (strip (map
          (\<lambda>c. if c \<in> set problem_chars \<union> {CHR '' ''} then CHR ''_'' else c) (py_str v))))
   \<and> (truthy v \<and> (is_space (hd (py_str v)) \<longrightarrow> hd (py_str v) = CHR '' '')
               \<and> (is_space (last (py_str v)) \<longrightarrow> last (py_str v) = CHR '' '') \<longrightarrow>
        length (clean_filename v) = min MAX_FOLDER_LENGTH (length (py_str v))
        \<and> (\<forall>i < length (clean_filename v).
              clean_filename v ! i =
                (if py_str v ! i \<in> set problem_chars \<union> {CHR '' ''} then CHR ''_''
                 else py_str v ! i)))
   \<and> clean_filename (PyStr ''Jo:hn/Doe*'') = ''Jo_hn_Doe_''"
proof (intro conjI impI)
  show "set (clean_filename v) \<inter> (set problem_chars \<union> {CHR '' ''}) = {}"
  proof (cases "truthy v")
    case False
    then show ?thesis by (simp add: clean_filename_def problem_chars_def)
  next
    case True
    from set_clean_filename [OF True] problem_free show ?thesis by blast
  qed
next
  assume "truthy v"
  then show "clean_filename v = take MAX_FOLDER_LENGTH (strip (map
          (\<lambda>c. if c \<in> set problem_chars \<union> {CHR '' ''} then CHR ''_'' else c) (py_str v)))"
    by (simp add: clean_filename_def replace_both)
next
  let ?f = "\<lambda>c. if c \<in> set problem_chars \<union> {CHR '' ''} then CHR ''_'' else c"
  let ?s = "py_str v"
  assume h: "truthy v \<and> (is_space (hd ?s) \<longrightarrow> hd ?s = CHR '' '')
               \<and> (is_space (last ?s) \<longrightarrow> last ?s = CHR '' '')"
  then have ne: "?s \<noteq> []"
    using truthy_py_str_nonempty by blast
  have hd: "\<not> is_space (hd (map ?f ?s))"
    using h ne not_space_underscore by (auto simp: hd_map)
  have last: "\<not> is_space (last (map ?f ?s))"
    using h ne not_space_underscore by (auto simp: last_map)
  have "strip (map ?f ?s) = map ?f ?s"
    using hd last by (intro strip_id) simp
  with h have eq: "clean_filename v = take MAX_FOLDER_LENGTH (map ?f ?s)"
    by (simp add: clean_filename_def replace_both)
  show "length (clean_filename v) = min MAX_FOLDER_LENGTH (length ?s)"
    by (simp add: eq min.commute)
  show "\<forall>i < length (clean_filename v). clean_filename v ! i =
          (if ?s ! i \<in> set problem_chars \<union> {CHR '' ''} then CHR ''_'' else ?s ! i)"
    by (simp add: eq)
next
  show "clean_filename (PyStr ''Jo:hn/Doe*'') = ''Jo_hn_Doe_''"
    by (simp add: clean_filename_def re_sub_problem_def replace_space_def strip_def is_space_def
        problem_chars_def MAX_FOLDER_LENGTH_def)
qed

theorem clean_filename_no_problem_chars_witness:
  "truthy (PyStr ''John Doe'')
   \<and> length (clean_filename (PyStr ''John Doe'')) = 8
   \<and> clean_filename (PyStr ''John Doe'') ! 4 = CHR ''_''
   \<and> clean_filename (PyStr ''John Doe'') ! 5 = CHR ''D''"
proof -
  have pre: "truthy (PyStr ''John Doe'')
      \<and> (is_space (hd (py_str (PyStr ''John Doe''))) \<longrightarrow> hd (py_str (PyStr ''John Doe'')) = CHR '' '')
      \<and> (is_space (last (py_str (PyStr ''John Doe''))) \<longrightarrow> last (py_str (PyStr ''John Doe'')) = CHR '' '')"
    by (simp add: is_space_def)
  note t = clean_filename_no_problem_chars [of "PyStr ''John Doe''", THEN conjunct2, THEN conjunct2,
      THEN conjunct1, rule_format, OF pre]
  have len: "length (clean_filename (PyStr ''John Doe'')) = 8"
    using t by (simp add: MAX_FOLDER_LENGTH_def)
  have "clean_filename (PyStr ''John Doe'') ! 4 = CHR ''_''"
    "clean_filename (PyStr ''John Doe'') ! 5 = CHR ''D''"
    using t len by (simp_all add: problem_chars_def)
  with len show ?thesis by simp
qed

text \<open>
  C6. If creating a directory level raises, after the levels before it were created, then
  the handler returns 0xC001; the only filesystem calls made are the \<^verbatim>\<open>mkdir\<close> calls up to
  and including the failing level (no later level is attempted, nothing is written or
  deleted); the files are as before; and the directories that existed or were created stay.
\<close>

theorem directory_failure_aborts:
  assumes loc: "storage_location e (dataset ev) w = (Inr loc, w1)"
    and split: "subfolders_of loc = pre @ f # post"
    and ok: "\<forall>q\<in>set (level_paths (base_path e) pre). mkdir_raises e (files w) q = None"
    and bad: "mkdir_raises e (files w) (joinpath (foldl joinpath (base_path e) pre) f) = Some x"
  shows "fst (handle_store e ev w) = 0xC001
     \<and> trace (snd (handle_store e ev w)) =
         trace w @ map Mkdir (level_paths (base_path e) (pre @ [f]))
     \<and> files (snd (handle_store e ev w)) = files w
     \<and> dirs (snd (handle_store e ev w)) = dirs w \<union> made e (level_paths (base_path e) pre)"
  by (simp add: handle_store_dir_fail [OF loc split ok bad] logger_def)

theorem directory_failure_aborts_witness:
  "mkdir_fault env_mkdir studyA = Some (OSError ''Permission denied'')
   \<and> fst (handle_store env_mkdir evA w0) = 0xC001
   \<and> trace (snd (handle_store env_mkdir evA w0)) = [Mkdir patientA, Mkdir studyA]
   \<and> files (snd (handle_store env_mkdir evA w0)) = Map.empty
   \<and> parts patientA \<in> dirs (snd (handle_store env_mkdir evA w0))"
proof -
  have base: "base_path env_mkdir = Path ''/'' [''srv'', ''estudios_recibidos'']"
    by (rule base_srv) (simp add: env_mkdir_simps)
  have split: "subfolders_of locA
               = [''John_Doe_P1''] @ ''20240101_E999999999999'' # [''CT_S619.2.55.3.1'']"
    by (simp add: subfolders_of_def locA_def)
  have l1: "level_paths (Path ''/'' [''srv'', ''estudios_recibidos'']) [''John_Doe_P1'']
            = [patientA]"
    by code_simp
  have j: "joinpath (foldl joinpath (Path ''/'' [''srv'', ''estudios_recibidos''])
             [''John_Doe_P1'']) ''20240101_E999999999999'' = studyA"
    by code_simp
  have ne: "patientA \<noteq> studyA"
    by code_simp
  have ok: "\<forall>q\<in>set (level_paths (base_path env_mkdir) [''John_Doe_P1'']).
              mkdir_raises env_mkdir (files w0) q = None"
    unfolding base l1 using ne by (simp add: w0_simps mkdir_raises_empty env_mkdir_simps)
  have bad: "mkdir_raises env_mkdir (files w0)
               (joinpath (foldl joinpath (base_path env_mkdir) [''John_Doe_P1''])
                  ''20240101_E999999999999'')
             = Some (OSError ''Permission denied'')"
    unfolding base j by (simp add: mkdir_raises_def env_mkdir_simps)
  have fault: "mkdir_fault env_mkdir studyA = Some (OSError ''Permission denied'')"
    by (simp add: env_mkdir_simps)
  have inmade: "parts patientA \<in> made env_mkdir [patientA]"
    by code_simp
  have j1: "joinpath (Path ''/'' [''srv'', ''estudios_recibidos'']) ''John_Doe_P1'' = patientA"
    and j2: "joinpath patientA ''20240101_E999999999999'' = studyA"
    by code_simp+
  show ?thesis
    using directory_failure_aborts [OF locA_evA split ok bad] fault inmade
    by (simp add: base j1 j2 w0_simps)
qed

text \<open>
  C7. If the existence check finds nothing at the target and writing it raises (because
  the environment says so, or because the path cannot be followed), the handler returns
  0xC002 (so never 0x0000) and calls \<^verbatim>\<open>unlink\<close> on the target right after the failed write;
  whether or not that deletion raises, the result is the same. When the deletion succeeds,
  or the write left nothing behind, the files are as before the call.
\<close>

theorem write_failure_cleans_up:
  assumes loc: "storage_location e (dataset ev) w = (Inr loc, w1)"
    and ok: "\<forall>q\<in>set (levels e loc). mkdir_raises e (files w) q = None"
    and stat: "stat_fault e (target e loc) = None"
    and absent: "\<not> found e (ensured e loc w) (target e loc)"
    and wf: "write_raises e (target e loc) = Some (x, partial)"
  shows "fst (handle_store e ev w) = 0xC002
     \<and> fst (handle_store e ev w) \<noteq> 0x0000
     \<and> trace (snd (handle_store e ev w)) =
         trace w @ map Mkdir (levels e loc)
           @ [Stat (target e loc), Write (target e loc), Unlink (target e loc)]
     \<and> files (snd (handle_store e ev w)) =
         (if unlink_fault e (target e loc) = None \<or> \<not> partial \<or> dangling e (target e loc)
          then files w
          else (files w)(node_of e (target e loc) \<mapsto> Partial))"
proof -
  have upd: "(files w)(node_of e (target e loc) := None) = files w"
    if "\<not> dangling e (target e loc)"
  proof -
    have "\<not> is_file (files w) (node_of e (target e loc))"
      using absent that by (simp add: found_def ensured_def)
    then have "files w (node_of e (target e loc)) = None"
      by (rule not_is_file_None)
    then show ?thesis by (simp add: fun_upd_idem_iff)
  qed
  show ?thesis
  proof (cases "dangling e (target e loc)")
    case True
    with absent show ?thesis
      by (simp add: handle_store_checked [OF loc ok stat] save_as_def wf unlink_def called_def
          logger_def ensured_def Let_def split: option.split)
  next
    case False
    with absent upd [OF False] show ?thesis
      by (simp add: handle_store_checked [OF loc ok stat] save_as_def wf unlink_def called_def
          logger_def ensured_def Let_def split: option.split)
  qed
qed

theorem write_failure_cleans_up_witness:
  "write_raises env_write targetA = Some (OSError ''No space left on device'', True)
   \<and> fst (handle_store env_write evA w0) = 0xC002
   \<and> trace (snd (handle_store env_write evA w0)) =
       [Mkdir patientA, Mkdir studyA, Mkdir seriesA, Stat targetA, Write targetA, Unlink targetA]
   \<and> files (snd (handle_store env_write evA w0)) = [parts targetA \<mapsto> Partial]"
proof -
  note c = env_write_simps(1)
  have ok: "\<forall>q\<in>set (levels env_write locA). mkdir_raises env_write (files w0) q = None"
    by (simp add: w0_simps mkdir_raises_empty env_write_simps)
  have stat: "stat_fault env_write (target env_write locA) = None"
    by (simp add: env_write_simps)
  have absent: "\<not> found env_write (ensured env_write locA w0) (target env_write locA)"
    by (rule not_found_A) (simp_all add: env_write_simps)
  have wf: "write_raises env_write (target env_write locA)
            = Some (OSError ''No space left on device'', True)"
    by (simp add: write_raises_def env_write_simps)
  show ?thesis
    using write_failure_cleans_up [OF locA_evA ok stat absent wf] wf
    by (simp add: targetA_eq [OF c] levelsA_eq [OF c] w0_simps env_write_simps canon_targetA)
qed

text \<open>
  C8. Provided \<^verbatim>\<open>generate_uid\<close> never returns the empty string: when the study, series or
  SOP identifier is absent from the dataset, the identifier shortened into the study
  folder, the series folder or the filename is the one generated in this call (the first,
  second or third), and its shortened form is not empty.
\<close>

theorem missing_uid_gets_generated:
  assumes loc: "storage_location e ds w = (Inr loc, w1)"
    and gen: "\<forall>n. gen_uid e n \<noteq> []"
  shows "(ds ''StudyInstanceUID'' = None \<longrightarrow>
            (\<exists>u. shorten_uid (PyStr (gen_uid e (uid_count w))) = Inr u \<and> u \<noteq> []
               \<and> study_folder loc = py_str (ds_get ds ''StudyDate'' (PyStr [])) @ ''_E'' @ u))
       \<and> (ds ''SeriesInstanceUID'' = None \<longrightarrow>
            (\<exists>u. shorten_uid (PyStr (gen_uid e (uid_count w + 1))) = Inr u \<and> u \<noteq> []
               \<and> series_folder loc = py_str (ds_get ds ''Modality'' (PyStr ''XX'')) @ ''_S'' @ u))
       \<and> (ds ''SOPInstanceUID'' = None \<longrightarrow>
            (\<exists>u. shorten_uid (PyStr (gen_uid e (uid_count w + 2))) = Inr u \<and> u \<noteq> []
               \<and> filename loc = py_str (ds_get ds ''Modality'' (PyStr ''XX'')) @ ''_''
                    @ zfill 4 (py_str (ds_get ds ''InstanceNumber'' (PyStr ''0''))) @ ''_''
                    @ u @ ''.dcm''))"
proof (intro conjI impI)
  assume "ds ''StudyInstanceUID'' = None"
  then show "\<exists>u. shorten_uid (PyStr (gen_uid e (uid_count w))) = Inr u \<and> u \<noteq> []
               \<and> study_folder loc = py_str (ds_get ds ''StudyDate'' (PyStr [])) @ ''_E'' @ u"
    using loc gen
    by (auto simp: storage_location_def generate_uid_def ds_get_def Let_def
        split: sum.splits if_splits)
next
  assume "ds ''SeriesInstanceUID'' = None"
  then show "\<exists>u. shorten_uid (PyStr (gen_uid e (uid_count w + 1))) = Inr u \<and> u \<noteq> []
               \<and> series_folder loc = py_str (ds_get ds ''Modality'' (PyStr ''XX'')) @ ''_S'' @ u"
    using loc gen
    by (auto simp: storage_location_def generate_uid_def ds_get_def Let_def
        split: sum.splits if_splits)
next
  assume "ds ''SOPInstanceUID'' = None"
  then show "\<exists>u. shorten_uid (PyStr (gen_uid e (uid_count w + 2))) = Inr u \<and> u \<noteq> []
               \<and> filename loc = py_str (ds_get ds ''Modality'' (PyStr ''XX'')) @ ''_''
                    @ zfill 4 (py_str (ds_get ds ''InstanceNumber'' (PyStr ''0''))) @ ''_''
                    @ u @ ''.dcm''"
    using loc gen
    by (auto simp: storage_location_def generate_uid_def ds_get_def Let_def
        split: sum.splits if_splits)
qed

theorem missing_uid_gets_generated_witness:
  "(\<forall>n. gen_uid env0 n \<noteq> [])
   \<and> ds_no_uids ''StudyInstanceUID'' = None \<and> ds_no_uids ''SeriesInstanceUID'' = None
   \<and> ds_no_uids ''SOPInstanceUID'' = None
   \<and> fst (storage_location env0 ds_no_uids w0) = Inr loc_no_uids
   \<and> (\<exists>u. shorten_uid (PyStr (gen_uid env0 (uid_count w0))) = Inr u \<and> u \<noteq> []
         \<and> study_folder loc_no_uids = py_str (ds_get ds_no_uids ''StudyDate'' (PyStr [])) @ ''_E'' @ u)
   \<and> (\<exists>u. shorten_uid (PyStr (gen_uid env0 (uid_count w0 + 1))) = Inr u \<and> u \<noteq> []
         \<and> series_folder loc_no_uids = py_str (ds_get ds_no_uids ''Modality'' (PyStr ''XX'')) @ ''_S'' @ u)
   \<and> (\<exists>u. shorten_uid (PyStr (gen_uid env0 (uid_count w0 + 2))) = Inr u \<and> u \<noteq> []
         \<and> filename loc_no_uids = py_str (ds_get ds_no_uids ''Modality'' (PyStr ''XX'')) @ ''_''
              @ zfill 4 (py_str (ds_get ds_no_uids ''InstanceNumber'' (PyStr ''0''))) @ ''_''
              @ u @ ''.dcm'')"
proof -
  have none: "ds_no_uids ''StudyInstanceUID'' = None" "ds_no_uids ''SeriesInstanceUID'' = None"
    "ds_no_uids ''SOPInstanceUID'' = None"
    by (simp_all add: ds_no_uids_def)
  show ?thesis
    using missing_uid_gets_generated [OF fst_eq_pair [OF loc_no_uids_ok] gen_env0_nonempty]
      none gen_env0_nonempty loc_no_uids_ok
    by blast
qed

text \<open>
  C9. An identifier that is present but empty is used as it is: its shortened form is
  empty, the study folder is the study date followed by \<^verbatim>\<open>_E\<close> and nothing else, the series
  folder is the modality followed by \<^verbatim>\<open>_S\<close>, and the filename ends in \<^verbatim>\<open>_.dcm\<close>.
\<close>

theorem empty_uid_used_as_is:
  assumes loc: "storage_location e ds w = (Inr loc, w1)"
  shows "shorten_uid (PyStr []) = Inr []
       \<and> (ds ''StudyInstanceUID'' = Some (PyStr []) \<longrightarrow>
            study_folder loc = py_str (ds_get ds ''StudyDate'' (PyStr [])) @ ''_E'')
       \<and> (ds ''SeriesInstanceUID'' = Some (PyStr []) \<longrightarrow>
            series_folder loc = py_str (ds_get ds ''Modality'' (PyStr ''XX'')) @ ''_S'')
       \<and> (ds ''SOPInstanceUID'' = Some (PyStr []) \<longrightarrow>
            filename loc = py_str (ds_get ds ''Modality'' (PyStr ''XX'')) @ ''_''
              @ zfill 4 (py_str (ds_get ds ''InstanceNumber'' (PyStr ''0''))) @ ''_.dcm'')"
  using loc
  by (auto simp: storage_location_def generate_uid_def ds_get_def Let_def split: sum.splits)

theorem empty_uid_used_as_is_witness:
  "ds_empty_uids ''StudyInstanceUID'' = Some (PyStr [])
   \<and> ds_empty_uids ''SeriesInstanceUID'' = Some (PyStr [])
   \<and> ds_empty_uids ''SOPInstanceUID'' = Some (PyStr [])
   \<and> fst (storage_location env0 ds_empty_uids w0) = Inr loc_empty_uids
   \<and> study_folder loc_empty_uids = py_str (ds_get ds_empty_uids ''StudyDate'' (PyStr [])) @ ''_E''
   \<and> series_folder loc_empty_uids = py_str (ds_get ds_empty_uids ''Modality'' (PyStr ''XX'')) @ ''_S''
   \<and> study_folder loc_empty_uids = ''20240101_E''"
proof -
  have some: "ds_empty_uids ''StudyInstanceUID'' = Some (PyStr [])"
    "ds_empty_uids ''SeriesInstanceUID'' = Some (PyStr [])"
    "ds_empty_uids ''SOPInstanceUID'' = Some (PyStr [])"
    by (simp_all add: ds_empty_uids_def)
  have sf: "study_folder loc_empty_uids = ''20240101_E''"
    by (simp add: loc_empty_uids_def)
  show ?thesis
    using empty_uid_used_as_is [OF fst_eq_pair [OF loc_empty_uids_ok]] some loc_empty_uids_ok sf
    by blast
qed




end
